theory Spec2Isabelle
  imports Complex_Main
begin

section \<open>Values of the program\<close>

text \<open>
  The server in \<^verbatim>\<open>ftse_data_server_new.py\<close> keeps one snapshot of an index quote, refreshed
  from a scraped page.  Python floats are modelled by the rational numbers they denote
  (\<^typ>\<open>rat\<close>): every finite float is a rational, and the thresholds and constants of the
  program are compared exactly.  Non-finite floats (\<^verbatim>\<open>inf\<close>, \<^verbatim>\<open>nan\<close>) and the rounding of
  float arithmetic are outside the model.  A Python \<^verbatim>\<open>str\<close> is the list of its Unicode code
  points.
\<close>

type_synonym ustr = "nat list"

definition ascii :: "string \<Rightarrow> ustr" where
  "ascii s = map of_char s"

subsection \<open>Local time\<close>

text \<open>
  The fields of a \<^verbatim>\<open>datetime\<close> as \<^verbatim>\<open>get_taipei_time()\<close> returns it.  All values compared by
  the program carry the same time zone object, so Python compares their fields
  lexicographically, and \<^verbatim>\<open>weekday()\<close> is computed from the proleptic Gregorian ordinal of the
  date (Monday is 0).
\<close>

record datetime =
  dt_year :: nat
  dt_month :: nat
  dt_day :: nat
  dt_hour :: nat
  dt_minute :: nat
  dt_second :: nat
  dt_microsecond :: nat

definition is_leap :: "nat \<Rightarrow> bool" where
  "is_leap y = (y mod 4 = 0 \<and> (y mod 100 \<noteq> 0 \<or> y mod 400 = 0))"

definition days_before_year :: "nat \<Rightarrow> nat" where
  "days_before_year yr = (let y = yr - 1 in y * 365 + y div 4 - y div 100 + y div 400)"

definition days_before_month :: "nat \<Rightarrow> nat \<Rightarrow> nat" where
  "days_before_month yr m =
     [0, 31, 59, 90, 120, 151, 181, 212, 243, 273, 304, 334] ! (m - 1)
       + (if m > 2 \<and> is_leap yr then 1 else 0)"

definition toordinal :: "datetime \<Rightarrow> nat" where
  "toordinal d = days_before_year (dt_year d) + days_before_month (dt_year d) (dt_month d) + dt_day d"

definition weekday :: "datetime \<Rightarrow> nat" where
  "weekday d = (toordinal d + 6) mod 7"

definition dt_fields :: "datetime \<Rightarrow> nat list" where
  "dt_fields d =
     [dt_year d, dt_month d, dt_day d, dt_hour d, dt_minute d, dt_second d, dt_microsecond d]"

fun lex_le :: "nat list \<Rightarrow> nat list \<Rightarrow> bool" where
  "lex_le [] ys = True"
| "lex_le (x # xs) [] = False"
| "lex_le (x # xs) (y # ys) = (x < y \<or> (x = y \<and> lex_le xs ys))"

definition dt_le :: "datetime \<Rightarrow> datetime \<Rightarrow> bool" where
  "dt_le a b = lex_le (dt_fields a) (dt_fields b)"

definition replace_time :: "datetime \<Rightarrow> nat \<Rightarrow> nat \<Rightarrow> nat \<Rightarrow> nat \<Rightarrow> datetime" where
  "replace_time d h m s us =
     d\<lparr>dt_hour := h, dt_minute := m, dt_second := s, dt_microsecond := us\<rparr>"

text \<open>
  \<^verbatim>\<open>is_market_hours()\<close>; the reading of the clock, \<^verbatim>\<open>now = get_taipei_time()\<close>, is the
  argument.
\<close>

definition is_market_hours :: "datetime \<Rightarrow> bool" where
  "is_market_hours now =
     (if weekday now \<ge> 5 then False
      else
        let market_start = replace_time now 8 45 0 0;
            market_end = replace_time now 13 45 0 0
        in dt_le market_start now \<and> dt_le now market_end)"

text \<open>The time of day in microseconds since midnight, the scale on which the window is stated.\<close>

definition time_of_day_us :: "datetime \<Rightarrow> nat" where
  "time_of_day_us d =
     ((dt_hour d * 60 + dt_minute d) * 60 + dt_second d) * 1000000 + dt_microsecond d"

definition valid_time :: "datetime \<Rightarrow> bool" where
  "valid_time d = (dt_hour d < 24 \<and> dt_minute d < 60 \<and> dt_second d < 60 \<and> dt_microsecond d < 1000000)"

subsection \<open>The quantizer\<close>

text \<open>\<^verbatim>\<open>int(value)\<close> on a float truncates towards zero.\<close>

definition py_int :: "rat \<Rightarrow> int" where
  "py_int v = (if 0 \<le> v then \<lfloor>v\<rfloor> else \<lceil>v\<rceil>)"

text \<open>
  \<^verbatim>\<open>round_to_quarter(value)\<close>.  The arithmetic of its body raises nothing on a finite value,
  so the \<^verbatim>\<open>except\<close> branch (which returns the input) has no counterpart here.
\<close>

definition round_to_quarter :: "rat \<Rightarrow> rat" where
  "round_to_quarter v =
     (let integer_part = py_int v;
          decimal_part = v - of_int integer_part
      in if decimal_part < 0.125 then of_int integer_part + 0
         else if decimal_part < 0.375 then of_int integer_part + 0.25
         else if decimal_part < 0.625 then of_int integer_part + 0.5
         else if decimal_part < 0.875 then of_int integer_part + 0.75
         else of_int (integer_part + 1) + 0)"

subsection \<open>Derived values\<close>

text \<open>
  \<^verbatim>\<open>round(x, 0)\<close> on a float: the nearest whole number, a tie going to the even one, returned
  as a float.
\<close>

definition py_round0 :: "rat \<Rightarrow> rat" where
  "py_round0 x =
     (let f = \<lfloor>x\<rfloor>; d = x - of_int f
      in if d < 1 / 2 then of_int f
         else if 1 / 2 < d then of_int (f + 1)
         else if even f then of_int f else of_int (f + 1))"

definition conversion_factor :: rat where
  "conversion_factor = 12.28065515714918"

definition base_tx :: rat where
  "base_tx = 27556"

definition calculate_tx_price :: "rat \<Rightarrow> rat" where
  "calculate_tx_price ftse_price = py_round0 (ftse_price * conversion_factor)"

definition calculate_tx_change :: "rat \<Rightarrow> rat" where
  "calculate_tx_change ftse_price =
     (let tx_price = calculate_tx_price ftse_price;
          tx_change = tx_price - base_tx
      in py_round0 tx_change)"

section \<open>The scraped page\<close>

subsection \<open>Text\<close>

text \<open>The code points the extractor looks for: \<^verbatim>\<open>','\<close>, \<^verbatim>\<open>'-'\<close>, \<^verbatim>\<open>'%'\<close>, the down glyph
  U+25BC and the up glyph U+25B2.\<close>

definition comma :: nat where "comma = 44"
definition minus_sign :: nat where "minus_sign = 45"
definition percent_sign :: nat where "percent_sign = 37"
definition down_glyph :: nat where "down_glyph = 9660"
definition up_glyph :: nat where "up_glyph = 9650"

text \<open>The code points \<^verbatim>\<open>str.isspace\<close> accepts, which \<^verbatim>\<open>str.strip()\<close> removes at both ends.\<close>

definition is_space :: "nat \<Rightarrow> bool" where
  "is_space c =
     ((9 \<le> c \<and> c \<le> 13) \<or> (28 \<le> c \<and> c \<le> 32) \<or> c = 133 \<or> c = 160 \<or> c = 5760
      \<or> (8192 \<le> c \<and> c \<le> 8202) \<or> c = 8232 \<or> c = 8233 \<or> c = 8239 \<or> c = 8287
      \<or> c = 12288)"

definition strip :: "ustr \<Rightarrow> ustr" where
  "strip s = rev (dropWhile is_space (rev (dropWhile is_space s)))"

text \<open>\<^verbatim>\<open>s.replace(c, '')\<close> for a one-character \<open>c\<close>.\<close>

definition remove_cp :: "nat \<Rightarrow> ustr \<Rightarrow> ustr" where
  "remove_cp c s = filter (\<lambda>x. x \<noteq> c) s"

definition startswith_minus :: "ustr \<Rightarrow> bool" where
  "startswith_minus s = (case s of [] \<Rightarrow> False | c # _ \<Rightarrow> c = minus_sign)"

subsection \<open>Messages and tags\<close>

text \<open>The string literals of the source, as code points.  The messages of
  \<^verbatim>\<open>FTSEDataError\<close>: no price region; price element not found, price not parsed; the same two
  for the change and for the percent change.\<close>

definition msg_no_price_info :: ustr where
  "msg_no_price_info = [28961, 27861, 25214, 21040, 20729, 26684, 36039, 35338, 21312, 22495]"

definition msg_find_price :: ustr where
  "msg_find_price = [28961, 27861, 25214, 21040, 20729, 26684, 20803, 32032]"

definition msg_parse_price :: ustr where
  "msg_parse_price = [28961, 27861, 35299, 26512, 20729, 26684]"

definition msg_find_change :: ustr where
  "msg_find_change = [28961, 27861, 25214, 21040, 28466, 36300, 20803, 32032]"

definition msg_parse_change :: ustr where
  "msg_parse_change = [28961, 27861, 35299, 26512, 28466, 36300]"

definition msg_find_percent :: ustr where
  "msg_find_percent = [28961, 27861, 25214, 21040, 28466, 36300, 30334, 20998, 27604, 20803, 32032]"

definition msg_parse_percent :: ustr where
  "msg_parse_percent = [28961, 27861, 35299, 26512, 28466, 36300, 30334, 20998, 27604]"

text \<open>The prefixes the refresh puts before the text of a network error, of a \<^verbatim>\<open>ValueError\<close>
  and of any other exception.\<close>

definition prefix_network :: ustr where
  "prefix_network = [32178, 32097, 37679, 35492, 58, 32]"

definition prefix_format :: ustr where
  "prefix_format = [25976, 25818, 26684, 24335, 37679, 35492, 58, 32]"

definition prefix_system :: ustr where
  "prefix_system = [31995, 32113, 37679, 35492, 58, 32]"

text \<open>The provenance tags: the live source and the default data; and the name of the index.\<close>

definition source_histock :: ustr where
  "source_histock = [72, 105, 83, 116, 111, 99, 107, 32178, 31449]"

definition source_default :: ustr where
  "source_default = [38928, 35373, 25976, 25818]"

definition name_ftse :: ustr where
  "name_ftse = [23500, 26178, 21488, 25351]"

subsection \<open>Exceptions\<close>

text \<open>The exception classes the refresh tells apart, each with its text (\<^verbatim>\<open>str(e)\<close>).  An
  \<^verbatim>\<open>AttributeError\<close> arises only inside the three inner \<^verbatim>\<open>try\<close> blocks, which turn it into an
  \<^verbatim>\<open>FTSEDataError\<close>; every other class is \<open>OtherException\<close>.\<close>

datatype exn =
    RequestException ustr
  | ValueError ustr
  | FTSEDataError ustr
  | OtherException ustr

subsection \<open>The queried document\<close>

text \<open>
  An element found in the page: its text and its \<^verbatim>\<open>class\<close> attribute (a list of class names,
  \<open>None\<close> when the attribute is absent).  A labelled field of the price region is looked up
  in two steps, \<^verbatim>\<open>find('span', id=...)\<close> and on its result
  \<^verbatim>\<open>find('span', class_=['clr-rd', 'clr-gr'])\<close>: \<open>None\<close> when the first finds nothing,
  \<open>Some None\<close> when only the second finds nothing.
\<close>

record element =
  el_text :: ustr
  el_class :: "ustr list option"

type_synonym lookup = "element option option"

record price_info =
  lbTPrice :: lookup
  lbTChange :: lookup
  lbTPercent :: lookup

text \<open>What fetching and parsing the page gives: an exception, or the result of
  \<^verbatim>\<open>soup.find('ul', class_='priceinfo')\<close>.\<close>

type_synonym page = "exn + price_info option"

text \<open>\<^verbatim>\<open>element.get('class', [''])[0]\<close>; indexing an empty list raises \<^verbatim>\<open>IndexError\<close>.\<close>

definition first_class :: "element \<Rightarrow> exn + ustr" where
  "first_class el =
     (case el_class el of
        None \<Rightarrow> Inr []
      | Some [] \<Rightarrow> Inl (OtherException (ascii ''list index out of range''))
      | Some (c # _) \<Rightarrow> Inr c)"

text \<open>The condition \<^verbatim>\<open>'\<down>' in text or element.get('class', [''])[0] == 'clr-gr'\<close> (with the
  down glyph for \<^verbatim>\<open>\<down>\<close>); \<^verbatim>\<open>or\<close> does not evaluate its second operand when the first holds.\<close>

definition marked_down :: "ustr \<Rightarrow> element \<Rightarrow> exn + bool" where
  "marked_down txt el =
     (if down_glyph \<in> set txt then Inr True
      else case first_class el of
             Inl e \<Rightarrow> Inl e
           | Inr c \<Rightarrow> Inr (c = ascii ''clr-gr''))"

subsection \<open>The field extractor\<close>

text \<open>
  The three inner \<^verbatim>\<open>try\<close> blocks of \<^verbatim>\<open>get_ftse_data_from_histock\<close>.  The builtin
  \<^verbatim>\<open>float\<close> is the parameter \<open>pf\<close>: \<open>None\<close> where it raises \<^verbatim>\<open>ValueError\<close>.  Calling
  \<^verbatim>\<open>find\<close> on the \<open>None\<close> of a failed first lookup raises \<^verbatim>\<open>AttributeError\<close>, which the
  block catches, like the \<^verbatim>\<open>ValueError\<close> of \<^verbatim>\<open>float\<close>, and replaces by its parse message;
  the \<^verbatim>\<open>FTSEDataError\<close> of a failed second lookup and an \<^verbatim>\<open>IndexError\<close> pass through.
\<close>

definition extract_price :: "(ustr \<Rightarrow> rat option) \<Rightarrow> lookup \<Rightarrow> exn + rat" where
  "extract_price pf lk =
     (case lk of
        None \<Rightarrow> Inl (FTSEDataError msg_parse_price)
      | Some None \<Rightarrow> Inl (FTSEDataError msg_find_price)
      | Some (Some price_element) \<Rightarrow>
          (case pf (remove_cp comma (strip (el_text price_element))) of
             None \<Rightarrow> Inl (FTSEDataError msg_parse_price)
           | Some price \<Rightarrow> Inr (round_to_quarter price)))"

definition extract_change :: "(ustr \<Rightarrow> rat option) \<Rightarrow> lookup \<Rightarrow> exn + rat" where
  "extract_change pf lk =
     (case lk of
        None \<Rightarrow> Inl (FTSEDataError msg_parse_change)
      | Some None \<Rightarrow> Inl (FTSEDataError msg_find_change)
      | Some (Some change_element) \<Rightarrow>
          (let change_text = strip (el_text change_element)
           in case pf (remove_cp comma (remove_cp up_glyph (remove_cp down_glyph change_text))) of
                None \<Rightarrow> Inl (FTSEDataError msg_parse_change)
              | Some change \<Rightarrow>
                  if startswith_minus change_text then Inr change
                  else (case marked_down change_text change_element of
                          Inl e \<Rightarrow> Inl e
                        | Inr down \<Rightarrow> Inr (if down then - change else change))))"

definition extract_percent :: "(ustr \<Rightarrow> rat option) \<Rightarrow> lookup \<Rightarrow> exn + rat" where
  "extract_percent pf lk =
     (case lk of
        None \<Rightarrow> Inl (FTSEDataError msg_parse_percent)
      | Some None \<Rightarrow> Inl (FTSEDataError msg_find_percent)
      | Some (Some percent_element) \<Rightarrow>
          (let percent_text = remove_cp percent_sign (strip (el_text percent_element))
           in case pf percent_text of
                None \<Rightarrow> Inl (FTSEDataError msg_parse_percent)
              | Some change_percent \<Rightarrow>
                  if startswith_minus percent_text then Inr change_percent
                  else (case marked_down (el_text percent_element) percent_element of
                          Inl e \<Rightarrow> Inl e
                        | Inr down \<Rightarrow> Inr (if down then - change_percent else change_percent))))"

text \<open>The body of the outer \<^verbatim>\<open>try\<close> up to the three extracted values.\<close>

definition extract_fields :: "(ustr \<Rightarrow> rat option) \<Rightarrow> page \<Rightarrow> exn + (rat \<times> rat \<times> rat)" where
  "extract_fields pf pg =
     (case pg of
        Inl e \<Rightarrow> Inl e
      | Inr None \<Rightarrow> Inl (FTSEDataError msg_no_price_info)
      | Inr (Some info) \<Rightarrow>
          (case extract_price pf (lbTPrice info) of
             Inl e \<Rightarrow> Inl e
           | Inr price \<Rightarrow>
               (case extract_change pf (lbTChange info) of
                  Inl e \<Rightarrow> Inl e
                | Inr change \<Rightarrow>
                    (case extract_percent pf (lbTPercent info) of
                       Inl e \<Rightarrow> Inl e
                     | Inr change_percent \<Rightarrow> Inr (price, change, change_percent)))))"

text \<open>The four \<^verbatim>\<open>except\<close> clauses of the refresh: the message handed to the fallback handler.\<close>

fun error_message :: "exn \<Rightarrow> ustr" where
  "error_message (RequestException m) = prefix_network @ m"
| "error_message (ValueError m) = prefix_format @ m"
| "error_message (FTSEDataError m) = m"
| "error_message (OtherException m) = prefix_system @ m"

section \<open>The snapshot store\<close>

text \<open>
  The dictionary \<^verbatim>\<open>ftse_data\<close>, a field for each key; the key \<^verbatim>\<open>'error'\<close> is absent after a
  successful fetch, and \<open>market_hours\<close> stands for the key \<^verbatim>\<open>'is_market_hours'\<close>.  The API
  handler adds two keys of its own to the dictionary it serialises (\<^verbatim>\<open>'request_time'\<close> and
  \<^verbatim>\<open>'server_time'\<close>), which no function here reads; they are left out.
\<close>

record snapshot =
  code :: ustr
  name :: ustr
  price :: rat
  change :: rat
  changePercent :: rat
  timestamp :: rat
  taipei_time :: ustr
  source :: ustr
  tx_price :: rat
  tx_change :: rat
  error :: "ustr option"
  market_hours :: bool

text \<open>The two globals, \<^verbatim>\<open>ftse_data\<close> (\<open>None\<close> at the start) and \<^verbatim>\<open>last_update_time\<close>.\<close>

record store =
  ftse_data :: "snapshot option"
  last_update_time :: rat

definition initial_store :: store where
  "initial_store = \<lparr>ftse_data = None, last_update_time = 0\<rparr>"

text \<open>
  What one call reads from its environment: the successive values of \<^verbatim>\<open>time.time()\<close> (one in
  \<^verbatim>\<open>update_ftse_data\<close>; up to three in \<^verbatim>\<open>handle_data_error\<close>: in the test of the window,
  for \<^verbatim>\<open>'timestamp'\<close> and for \<^verbatim>\<open>last_update_time\<close>), the formatted local time and the
  local time that \<^verbatim>\<open>is_market_hours()\<close> reads.
\<close>

record clock =
  time1 :: rat
  time2 :: rat
  time3 :: rat
  taipei_text :: ustr
  taipei_now :: datetime

definition update_ftse_data ::
  "rat \<Rightarrow> rat \<Rightarrow> rat \<Rightarrow> ustr \<Rightarrow> rat \<Rightarrow> rat \<Rightarrow> clock \<Rightarrow> store \<Rightarrow> store" where
  "update_ftse_data p chg pct src txp txc clk st =
     (let current_time = time1 clk
      in st\<lparr>ftse_data := Some
              \<lparr>code = ascii ''TWN'', name = name_ftse, price = p, change = chg,
               changePercent = pct, timestamp = current_time, taipei_time = taipei_text clk,
               source = src, tx_price = txp, tx_change = txc, error = None,
               market_hours = is_market_hours (taipei_now clk)\<rparr>,
            last_update_time := current_time\<rparr>)"

definition default_price :: rat where
  "default_price = 1637.5"

definition default_snapshot :: "ustr \<Rightarrow> clock \<Rightarrow> snapshot" where
  "default_snapshot msg clk =
     \<lparr>code = ascii ''TWN'', name = name_ftse, price = default_price, change = - 68.3,
      changePercent = - 4.0, timestamp = time2 clk, taipei_time = taipei_text clk,
      source = source_default, tx_price = calculate_tx_price default_price,
      tx_change = calculate_tx_change default_price, error = Some msg,
      market_hours = is_market_hours (taipei_now clk)\<rparr>"

text \<open>\<^verbatim>\<open>handle_data_error(error_message)\<close>, with its return value; \<open>msg\<close> is the message.\<close>

definition handle_data_error :: "ustr \<Rightarrow> clock \<Rightarrow> store \<Rightarrow> bool \<times> store" where
  "handle_data_error msg clk st =
     (case ftse_data st of
        Some d \<Rightarrow>
          if time1 clk - last_update_time st < 300
          then (True, st\<lparr>ftse_data := Some (d\<lparr>error := Some msg\<rparr>)\<rparr>)
          else (False, st\<lparr>ftse_data := Some (default_snapshot msg clk),
                          last_update_time := time3 clk\<rparr>)
      | None \<Rightarrow>
          (False, st\<lparr>ftse_data := Some (default_snapshot msg clk),
                     last_update_time := time3 clk\<rparr>))"

text \<open>\<^verbatim>\<open>get_ftse_data_from_histock()\<close> on the outcome \<open>pg\<close> of fetching and parsing the page.\<close>

definition get_ftse_data_from_histock ::
  "(ustr \<Rightarrow> rat option) \<Rightarrow> page \<Rightarrow> clock \<Rightarrow> store \<Rightarrow> bool \<times> store" where
  "get_ftse_data_from_histock pf pg clk st =
     (case extract_fields pf pg of
        Inr (p, chg, pct) \<Rightarrow>
          (let adjusted_price = p;
               txp = calculate_tx_price adjusted_price;
               txc = calculate_tx_change adjusted_price
           in (True, update_ftse_data adjusted_price chg pct source_histock txp txc clk st))
      | Inl e \<Rightarrow> handle_data_error (error_message e) clk st)"

text \<open>
  \<^verbatim>\<open>get_ftse_data()\<close>.  Besides the snapshot it returns, the model records what the call did
  about refreshing: nothing, started a thread that will run the refresh (the call does not
  wait for it, and the store is as before when it returns), or ran the refresh itself before
  returning.  \<open>t\<close> and \<open>now\<close> are the clock readings of the first branch, \<open>pg\<close> and \<open>clk\<close> the
  page and the readings of the refresh of the second.
\<close>

datatype refresh_action = NoRefresh | BackgroundRefresh | BlockingRefresh

definition get_ftse_data ::
  "(ustr \<Rightarrow> rat option) \<Rightarrow> datetime \<Rightarrow> rat \<Rightarrow> page \<Rightarrow> clock \<Rightarrow> store
     \<Rightarrow> (snapshot option \<times> refresh_action) \<times> store" where
  "get_ftse_data pf now t pg clk st =
     (case ftse_data st of
        Some d \<Rightarrow>
          (let update_interval = (if is_market_hours now then 20 else 300)
           in if t - last_update_time st > update_interval
              then ((Some d, BackgroundRefresh), st)
              else ((Some d, NoRefresh), st))
      | None \<Rightarrow>
          (let st' = snd (get_ftse_data_from_histock pf pg clk st)
           in ((ftse_data st', BlockingRefresh), st')))"

text \<open>
  The stores the program can be in: the initial one, and the result of any refresh from one
  of them (the start-up fetch, the background updater, the threads started by readers and the
  forced refresh of the API all call \<^verbatim>\<open>get_ftse_data_from_histock\<close>).  Within one call the
  clock does not run backwards between the reading stored as \<^verbatim>\<open>'timestamp'\<close> and the later
  one stored as \<^verbatim>\<open>last_update_time\<close>.
\<close>

inductive reachable :: "(ustr \<Rightarrow> rat option) \<Rightarrow> store \<Rightarrow> bool" for pf where
  start: "reachable pf initial_store"
| refresh: "reachable pf st \<Longrightarrow> time2 clk \<le> time3 clk
            \<Longrightarrow> reachable pf (snd (get_ftse_data_from_histock pf pg clk st))"

section \<open>Concrete inputs\<close>

text \<open>Instants used to run the classifier: 2 January 2024 is a Tuesday, 6 and 7 January 2024
  are a Saturday and a Sunday.\<close>

definition tuesday_at :: "nat \<Rightarrow> nat \<Rightarrow> nat \<Rightarrow> nat \<Rightarrow> datetime" where
  "tuesday_at h m s us =
     \<lparr>dt_year = 2024, dt_month = 1, dt_day = 2,
      dt_hour = h, dt_minute = m, dt_second = s, dt_microsecond = us\<rparr>"

definition saturday_at :: "nat \<Rightarrow> nat \<Rightarrow> nat \<Rightarrow> nat \<Rightarrow> datetime" where
  "saturday_at h m s us =
     \<lparr>dt_year = 2024, dt_month = 1, dt_day = 6,
      dt_hour = h, dt_minute = m, dt_second = s, dt_microsecond = us\<rparr>"

definition sunday_at :: "nat \<Rightarrow> nat \<Rightarrow> nat \<Rightarrow> nat \<Rightarrow> datetime" where
  "sunday_at h m s us =
     \<lparr>dt_year = 2024, dt_month = 1, dt_day = 7,
      dt_hour = h, dt_minute = m, dt_second = s, dt_microsecond = us\<rparr>"

text \<open>
  A parser to run the extractor on concrete texts.  On a plain decimal literal (an optional
  sign, digits, an optional point and digits, white space around) it returns the number
  written, as the builtin \<^verbatim>\<open>float\<close> does up to rounding; on every other text it returns
  \<open>None\<close>, as \<^verbatim>\<open>float\<close> does on a text with a glyph or a letter in it (the exponent,
  underscore, \<^verbatim>\<open>inf\<close> and \<^verbatim>\<open>nan\<close> forms that \<^verbatim>\<open>float\<close> also accepts are not covered).  The
  general statements below hold for every parser \<open>pf\<close>; this one serves their instances.
\<close>

definition is_digit :: "nat \<Rightarrow> bool" where
  "is_digit c = (48 \<le> c \<and> c \<le> 57)"

fun digits_value :: "nat \<Rightarrow> ustr \<Rightarrow> nat" where
  "digits_value acc [] = acc"
| "digits_value acc (c # cs) = digits_value (acc * 10 + (c - 48)) cs"

definition float_unsigned :: "ustr \<Rightarrow> rat option" where
  "float_unsigned s =
     (let ip = takeWhile is_digit s; rest = dropWhile is_digit s
      in case rest of
           [] \<Rightarrow> if ip = [] then None else Some (of_nat (digits_value 0 ip))
         | c # fp \<Rightarrow>
             if c = 46 \<and> list_all is_digit fp \<and> (ip \<noteq> [] \<or> fp \<noteq> [])
             then Some (of_nat (digits_value 0 (ip @ fp)) / 10 ^ length fp)
             else None)"

definition float_plain :: "ustr \<Rightarrow> rat option" where
  "float_plain s =
     (case strip s of
        [] \<Rightarrow> None
      | c # cs \<Rightarrow>
          if c = 45 then map_option uminus (float_unsigned cs)
          else if c = 43 then float_unsigned cs
          else float_unsigned (c # cs))"

text \<open>An element with one class, a page with its three fields found, the clock readings of
  a call that starts at \<open>t\<close>, and two stores: after a successful first fetch at 1000, and after
  a failed first fetch at 1000.\<close>

definition span :: "ustr \<Rightarrow> string \<Rightarrow> element" where
  "span t c = \<lparr>el_text = t, el_class = Some [ascii c]\<rparr>"

definition fields_info :: "element \<Rightarrow> element \<Rightarrow> element \<Rightarrow> price_info" where
  "fields_info p c q =
     \<lparr>lbTPrice = Some (Some p), lbTChange = Some (Some c), lbTPercent = Some (Some q)\<rparr>"

definition fields_page :: "element \<Rightarrow> element \<Rightarrow> element \<Rightarrow> page" where
  "fields_page p c q = Inr (Some (fields_info p c q))"

definition page_ok :: page where
  "page_ok = fields_page (span (ascii ''1,637.6'') ''clr-gr'')
               (span (down_glyph # ascii ''5.2'') ''clr-gr'') (span (ascii ''-0.32%'') ''clr-gr'')"

definition info_bad_price :: price_info where
  "info_bad_price = fields_info (span (ascii ''N/A'') ''clr-gr'')
               (span (down_glyph # ascii ''5.2'') ''clr-gr'') (span (ascii ''-0.32%'') ''clr-gr'')"

definition page_bad_price :: page where
  "page_bad_price = Inr (Some info_bad_price)"

text \<open>The same page without the inner element of the price.\<close>

definition info_no_price :: price_info where
  "info_no_price = info_bad_price\<lparr>lbTPrice := Some None\<rparr>"

definition clock_at :: "rat \<Rightarrow> clock" where
  "clock_at t =
     \<lparr>time1 = t, time2 = t + 1 / 1000, time3 = t + 2 / 1000,
      taipei_text = ascii ''2024-01-02 10:00:00'', taipei_now = tuesday_at 10 0 0 0\<rparr>"

definition live_snapshot :: snapshot where
  "live_snapshot =
     \<lparr>code = ascii ''TWN'', name = name_ftse, price = 1637.5, change = - 5.2,
      changePercent = - 0.32, timestamp = 1000, taipei_time = ascii ''2024-01-02 10:00:00'',
      source = source_histock, tx_price = 20110, tx_change = - 7446, error = None,
      market_hours = True\<rparr>"

definition store_live :: store where
  "store_live = \<lparr>ftse_data = Some live_snapshot, last_update_time = 1000\<rparr>"

definition store_default :: store where
  "store_default =
     \<lparr>ftse_data = Some (default_snapshot msg_parse_price (clock_at 1000)),
      last_update_time = 1000 + 2 / 1000\<rparr>"

text \<open>The readings of a call that starts 300.0015 seconds after 1000.\<close>

definition clock_late :: clock where
  "clock_late = clock_at (1300 + 15 / 10000)"

section \<open>Properties of the pure functions\<close>

lemma py_round0_of_int: "py_round0 (of_int n) = of_int n"
  by (simp add: py_round0_def)

lemma py_round0_is_int: "\<exists>n. py_round0 x = of_int n"
  unfolding py_round0_def Let_def by (simp only: split: if_split) blast

text \<open>
  C7.  The derived-value calculators are functions of the input price alone, and the derived
  offset is the derived price minus the baseline 27556, for every price.
\<close>

theorem calculate_tx_change_exact:
  "calculate_tx_change p = calculate_tx_price p - 27556"
proof -
  obtain n where n: "calculate_tx_price p = of_int n"
    unfolding calculate_tx_price_def using py_round0_is_int by blast
  have "calculate_tx_price p - 27556 = of_int (n - 27556)"
    by (simp add: n)
  then have "py_round0 (calculate_tx_price p - 27556) = calculate_tx_price p - 27556"
    by (simp only: py_round0_of_int)
  then show ?thesis
    by (simp add: calculate_tx_change_def base_tx_def Let_def)
qed

subsection \<open>The quantizer\<close>

lemma round_to_quarter_cases:
  fixes v :: rat
  defines "n \<equiv> py_int v"
  defines "d \<equiv> v - of_int n"
  shows "(0 \<le> d \<and> d < 0.125 \<longrightarrow> round_to_quarter v = of_int n)
    \<and> (0.125 \<le> d \<and> d < 0.375 \<longrightarrow> round_to_quarter v = of_int n + 0.25)
    \<and> (0.375 \<le> d \<and> d < 0.625 \<longrightarrow> round_to_quarter v = of_int n + 0.5)
    \<and> (0.625 \<le> d \<and> d < 0.875 \<longrightarrow> round_to_quarter v = of_int n + 0.75)
    \<and> (0.875 \<le> d \<and> d < 1 \<longrightarrow> round_to_quarter v = of_int (n + 1))"
  unfolding n_def d_def round_to_quarter_def Let_def by auto

lemma frac_int_plus:
  fixes q :: rat
  shows "0 \<le> q \<Longrightarrow> q < 1 \<Longrightarrow> frac (of_int n + q) = q"
  by (simp add: frac_unique_iff)

lemma round_to_quarter_frac: "frac (round_to_quarter v) \<in> {0, 0.25, 0.5, 0.75}"
  unfolding round_to_quarter_def Let_def
  by (simp only: split: if_split) (simp add: frac_int_plus del: of_int_add)

text \<open>A negative input has a negative (or zero) difference to its truncation, which the first
  comparison sends to the truncation itself.\<close>

lemma round_to_quarter_negative: "v < 0 \<Longrightarrow> round_to_quarter v = of_int \<lceil>v\<rceil>"
proof -
  assume neg: "v < 0"
  have "v - of_int \<lceil>v\<rceil> \<le> 0" by simp
  moreover have "(0::rat) < 0.125" by simp
  ultimately have "v - of_int \<lceil>v\<rceil> < 0.125" by (rule le_less_trans)
  with neg show ?thesis
    by (simp add: round_to_quarter_def py_int_def Let_def)
qed

lemma round_to_quarter_1637_12: "round_to_quarter 1637.12 = 1637.0"
  by code_simp

lemma round_to_quarter_1637_13: "round_to_quarter 1637.13 = 1637.25"
  by code_simp

lemma round_to_quarter_1637_99: "round_to_quarter 1637.99 = 1638.0"
  by code_simp

text \<open>
  C5.  \<^const>\<open>round_to_quarter\<close> splits its input \<open>v\<close> into the integer part \<open>n = int(v)\<close> and
  the fractional part \<open>d = v - n\<close> and maps \<open>d\<close> by the half-open thresholds
  \<open>[0, .125)\<close> to \<open>n\<close>, \<open>[.125, .375)\<close> to \<open>n + .25\<close>, \<open>[.375, .625)\<close> to \<open>n + .5\<close>,
  \<open>[.625, .875)\<close> to \<open>n + .75\<close> and \<open>[.875, 1)\<close> to \<open>n + 1\<close>; for every input the fractional
  part of the result is one of 0, .25, .5, .75; and 1637.12, 1637.13 and 1637.99 are mapped to
  1637.0, 1637.25 and 1638.0.
\<close>

theorem round_to_quarter_thresholds:
  "(let n = py_int v; d = v - of_int n
    in (0 \<le> d \<and> d < 0.125 \<longrightarrow> round_to_quarter v = of_int n)
     \<and> (0.125 \<le> d \<and> d < 0.375 \<longrightarrow> round_to_quarter v = of_int n + 0.25)
     \<and> (0.375 \<le> d \<and> d < 0.625 \<longrightarrow> round_to_quarter v = of_int n + 0.5)
     \<and> (0.625 \<le> d \<and> d < 0.875 \<longrightarrow> round_to_quarter v = of_int n + 0.75)
     \<and> (0.875 \<le> d \<and> d < 1 \<longrightarrow> round_to_quarter v = of_int (n + 1)))
   \<and> frac (round_to_quarter v) \<in> {0, 0.25, 0.5, 0.75}
   \<and> round_to_quarter 1637.12 = 1637.0
   \<and> round_to_quarter 1637.13 = 1637.25
   \<and> round_to_quarter 1637.99 = 1638.0"
  unfolding Let_def
  using round_to_quarter_cases [of v] round_to_quarter_frac [of v]
    round_to_quarter_1637_12 round_to_quarter_1637_13 round_to_quarter_1637_99
  by blast

lemma py_int_examples:
  "py_int (16371 / 10) = 1637" "py_int (16373 / 10) = 1637" "py_int (3275 / 2) = 1637"
  "py_int (16377 / 10) = 1637" "py_int (16379 / 10) = 1637"
  by code_simp+

theorem round_to_quarter_thresholds_witness:
  "(0 \<le> 1637.1 - rat_of_int (py_int 1637.1) \<and> 1637.1 - rat_of_int (py_int 1637.1) < 0.125
      \<and> round_to_quarter 1637.1 = 1637)
   \<and> (0.125 \<le> 1637.3 - rat_of_int (py_int 1637.3) \<and> 1637.3 - rat_of_int (py_int 1637.3) < 0.375
      \<and> round_to_quarter 1637.3 = 1637.25)
   \<and> (0.375 \<le> 1637.5 - rat_of_int (py_int 1637.5) \<and> 1637.5 - rat_of_int (py_int 1637.5) < 0.625
      \<and> round_to_quarter 1637.5 = 1637.5)
   \<and> (0.625 \<le> 1637.7 - rat_of_int (py_int 1637.7) \<and> 1637.7 - rat_of_int (py_int 1637.7) < 0.875
      \<and> round_to_quarter 1637.7 = 1637.75)
   \<and> (0.875 \<le> 1637.9 - rat_of_int (py_int 1637.9) \<and> 1637.9 - rat_of_int (py_int 1637.9) < 1
      \<and> round_to_quarter 1637.9 = 1638)"
  using round_to_quarter_thresholds [of "1637.1"] round_to_quarter_thresholds [of "1637.3"]
    round_to_quarter_thresholds [of "1637.5"] round_to_quarter_thresholds [of "1637.7"]
    round_to_quarter_thresholds [of "1637.9"]
  by (simp add: py_int_examples Let_def)

subsection \<open>The market classifier\<close>

lemma is_market_hours_weekend: "weekday now \<ge> 5 \<Longrightarrow> \<not> is_market_hours now"
  by (simp add: is_market_hours_def)

lemma is_market_hours_weekday:
  assumes "valid_time now" "weekday now < 5"
  shows "is_market_hours now \<longleftrightarrow>
    31500000000 \<le> time_of_day_us now \<and> time_of_day_us now \<le> 49500000000"
  using assms
  unfolding is_market_hours_def Let_def dt_le_def dt_fields_def replace_time_def
    time_of_day_us_def valid_time_def
  by auto

lemma weekday_examples:
  "weekday (tuesday_at h m s us) = 1"
  "weekday (saturday_at h m s us) = 5"
  "weekday (sunday_at h m s us) = 6"
  by (simp_all add: weekday_def toordinal_def days_before_year_def days_before_month_def
      is_leap_def tuesday_at_def saturday_at_def sunday_at_def)

lemma is_market_hours_tuesday:
  "is_market_hours (tuesday_at 8 45 0 0)"
  "is_market_hours (tuesday_at 13 44 59 0)"
  "is_market_hours (tuesday_at 13 45 0 0)"
  "\<not> is_market_hours (tuesday_at 13 45 1 0)"
  "\<not> is_market_hours (tuesday_at 13 45 0 1)"
  "\<not> is_market_hours (tuesday_at 8 44 59 999999)"
  by (simp_all add: is_market_hours_def weekday_examples dt_le_def dt_fields_def replace_time_def
      Let_def) (simp_all add: tuesday_at_def)

text \<open>
  C6.  The classifier is false at every instant of a Saturday or a Sunday (weekday 5 or 6),
  whatever the time of day; on the other weekdays it is true exactly when the local time of
  day lies between 08:45:00 and 13:45:00, both ends included (31500 and 49500 seconds after
  midnight, counted in microseconds).  A Tuesday at 08:45:00 and at 13:44:59 gives true, a
  Tuesday at 13:45:01 gives false.
\<close>

theorem is_market_hours_window:
  "(weekday now \<ge> 5 \<longrightarrow> \<not> is_market_hours now)
   \<and> (weekday now < 5 \<and> valid_time now \<longrightarrow>
        (is_market_hours now \<longleftrightarrow>
           31500000000 \<le> time_of_day_us now \<and> time_of_day_us now \<le> 49500000000))
   \<and> \<not> is_market_hours (saturday_at h m s us)
   \<and> \<not> is_market_hours (sunday_at h m s us)
   \<and> is_market_hours (tuesday_at 8 45 0 0)
   \<and> is_market_hours (tuesday_at 13 44 59 0)
   \<and> \<not> is_market_hours (tuesday_at 13 45 1 0)"
  using is_market_hours_weekend [of now] is_market_hours_weekday [of now]
    is_market_hours_weekend [of "saturday_at h m s us"]
    is_market_hours_weekend [of "sunday_at h m s us"]
    is_market_hours_tuesday(1,2,4)
  by (simp add: weekday_examples)

theorem is_market_hours_window_witness:
  "(weekday (saturday_at 10 0 0 0) \<ge> 5 \<and> \<not> is_market_hours (saturday_at 10 0 0 0))
   \<and> (weekday (tuesday_at 10 0 0 0) < 5 \<and> valid_time (tuesday_at 10 0 0 0)
        \<and> is_market_hours (tuesday_at 10 0 0 0)
        \<and> 31500000000 \<le> time_of_day_us (tuesday_at 10 0 0 0)
        \<and> time_of_day_us (tuesday_at 10 0 0 0) \<le> 49500000000)
   \<and> (weekday (tuesday_at 14 0 0 0) < 5 \<and> valid_time (tuesday_at 14 0 0 0)
        \<and> \<not> is_market_hours (tuesday_at 14 0 0 0)
        \<and> \<not> time_of_day_us (tuesday_at 14 0 0 0) \<le> 49500000000)"
  using is_market_hours_window [of "saturday_at 10 0 0 0"]
    is_market_hours_window [of "tuesday_at 10 0 0 0"]
    is_market_hours_window [of "tuesday_at 14 0 0 0"]
  by (simp add: weekday_examples) (simp add: tuesday_at_def valid_time_def time_of_day_us_def)

section \<open>The concrete inputs evaluated\<close>

lemmas text_eval = ascii_def strip_def is_space_def remove_cp_def startswith_minus_def
  comma_def minus_sign_def percent_sign_def down_glyph_def up_glyph_def
  float_plain_def float_unsigned_def is_digit_def Let_def span_def
lemmas extract_eval = extract_price_def extract_change_def extract_percent_def
  marked_down_def first_class_def

lemma round_to_quarter_1637_6: "round_to_quarter (8188 / 5) = 3275 / 2"
  by code_simp
lemma tx_default: "calculate_tx_price (3275 / 2) = 20110" "calculate_tx_change (3275 / 2) = - 7446"
  by code_simp+

lemma extract_fields_page_ok: "extract_fields float_plain page_ok = Inr (1637.5, - 5.2, - 0.32)"
  by (simp add: extract_fields_def page_ok_def fields_page_def fields_info_def text_eval
      extract_eval round_to_quarter_1637_6)

lemma extract_fields_page_bad_price:
  "extract_fields float_plain page_bad_price = Inl (FTSEDataError msg_parse_price)"
  by (simp add: extract_fields_def page_bad_price_def info_bad_price_def fields_info_def
      text_eval extract_eval)

lemma market_10: "is_market_hours (tuesday_at 10 0 0 0)"
  by (simp add: is_market_hours_def weekday_examples dt_le_def dt_fields_def replace_time_def
      Let_def) (simp add: tuesday_at_def)

lemma refresh_live:
  "get_ftse_data_from_histock float_plain page_ok (clock_at 1000) initial_store = (True, store_live)"
  by (simp add: get_ftse_data_from_histock_def extract_fields_page_ok update_ftse_data_def
      initial_store_def store_live_def live_snapshot_def tx_default market_10 clock_at_def)

lemma refresh_default:
  "get_ftse_data_from_histock float_plain page_bad_price (clock_at 1000) initial_store
     = (False, store_default)"
  by (simp add: get_ftse_data_from_histock_def extract_fields_page_bad_price handle_data_error_def
      initial_store_def store_default_def clock_at_def)

lemma reachable_store_live: "reachable float_plain store_live"
proof -
  have "time2 (clock_at 1000) \<le> time3 (clock_at 1000)"
    by (simp add: clock_at_def)
  from reachable.refresh [OF reachable.start this, of float_plain page_ok]
  show ?thesis by (simp add: refresh_live)
qed

lemma reachable_store_default: "reachable float_plain store_default"
proof -
  have "time2 (clock_at 1000) \<le> time3 (clock_at 1000)"
    by (simp add: clock_at_def)
  from reachable.refresh [OF reachable.start this, of float_plain page_bad_price]
  show ?thesis by (simp add: refresh_default)
qed

lemma reachable_timestamp:
  "reachable pf st \<Longrightarrow> ftse_data st = Some d \<Longrightarrow> timestamp d \<le> last_update_time st"
proof (induction arbitrary: d rule: reachable.induct)
  case start
  then show ?case by (simp add: initial_store_def)
next
  case (refresh st clk pg)
  then show ?case
    by (auto simp: get_ftse_data_from_histock_def handle_data_error_def update_ftse_data_def
        default_snapshot_def Let_def split: sum.splits option.splits if_splits prod.splits)
qed

section \<open>The fallback handler\<close>

lemma failed_refresh:
  "extract_fields pf pg = Inl e \<Longrightarrow>
     get_ftse_data_from_histock pf pg clk st = handle_data_error (error_message e) clk st"
  by (simp add: get_ftse_data_from_histock_def)

lemma handle_data_error_reuse:
  "ftse_data st = Some d \<Longrightarrow> time1 clk - last_update_time st < 300 \<Longrightarrow>
     handle_data_error msg clk st = (True, st\<lparr>ftse_data := Some (d\<lparr>error := Some msg\<rparr>)\<rparr>)"
  by (simp add: handle_data_error_def)

lemma handle_data_error_default:
  "ftse_data st = None \<or> 300 \<le> time1 clk - last_update_time st \<Longrightarrow>
     handle_data_error msg clk st =
       (False, st\<lparr>ftse_data := Some (default_snapshot msg clk), last_update_time := time3 clk\<rparr>)"
  by (auto simp: handle_data_error_def split: option.splits)

text \<open>
  C1.  A refresh fails (the extraction raises \<open>e\<close>) in a store the program can be in, where a
  current snapshot \<open>d\<close> exists and the time read by the handler minus the capture time
  \<^const>\<open>timestamp\<close> of \<open>d\<close> is below 300 seconds.  Then the handler returns \<open>True\<close> and the store
  it leaves is the old one with \<open>d\<close> still current and only its \<^const>\<open>error\<close> set to the
  message: price, change, percent, derived price and offset, source and capture timestamp of
  \<open>d\<close> are as before (and so is \<^const>\<open>last_update_time\<close>).  The handler compares against
  \<^const>\<open>last_update_time\<close>, which in a reachable store is never before the capture time.
\<close>

theorem failed_refresh_reuses_recent_snapshot:
  assumes "reachable pf st" and "ftse_data st = Some d"
    and "time1 clk - timestamp d < 300"
    and "extract_fields pf pg = Inl e"
  shows "get_ftse_data_from_histock pf pg clk st = handle_data_error (error_message e) clk st
    \<and> handle_data_error (error_message e) clk st
        = (True, st\<lparr>ftse_data := Some (d\<lparr>error := Some (error_message e)\<rparr>)\<rparr>)"
proof -
  from assms(1,2) have "timestamp d \<le> last_update_time st"
    by (rule reachable_timestamp)
  with assms(3) have "time1 clk - last_update_time st < 300"
    by simp
  with assms(2,4) show ?thesis
    by (simp add: failed_refresh handle_data_error_reuse)
qed

text \<open>An instance: a live snapshot captured at 1000, a refresh at 1200 whose price does not
  parse.\<close>

theorem failed_refresh_reuses_recent_snapshot_witness:
  "reachable float_plain store_live \<and> ftse_data store_live = Some live_snapshot
   \<and> time1 (clock_at 1200) - timestamp live_snapshot < 300
   \<and> extract_fields float_plain page_bad_price = Inl (FTSEDataError msg_parse_price)
   \<and> get_ftse_data_from_histock float_plain page_bad_price (clock_at 1200) store_live
       = (True, store_live\<lparr>ftse_data := Some (live_snapshot\<lparr>error := Some msg_parse_price\<rparr>)\<rparr>)"
proof -
  have a: "ftse_data store_live = Some live_snapshot"
    by (simp add: store_live_def)
  have b: "time1 (clock_at 1200) - timestamp live_snapshot < 300"
    by (simp add: clock_at_def live_snapshot_def)
  from failed_refresh_reuses_recent_snapshot
    [OF reachable_store_live a b extract_fields_page_bad_price]
  show ?thesis
    using reachable_store_live a b extract_fields_page_bad_price by simp
qed

text \<open>
  C2 (amended).  A refresh fails where no current snapshot exists, or where the time read by
  the handler minus the last-write time \<^const>\<open>last_update_time\<close> of the store is 300 seconds or
  more.  Then the handler returns \<open>False\<close> and makes current the default snapshot: price
  1637.5, change -68.3, percent -4.0, the default-data source tag, derived price and offset
  computed from 1637.5, the second clock reading of the call as timestamp, and the message as
  error; the last-write time becomes the third reading.
\<close>

theorem failed_refresh_default_snapshot:
  assumes "ftse_data st = None \<or> 300 \<le> time1 clk - last_update_time st"
    and "extract_fields pf pg = Inl e"
  shows "get_ftse_data_from_histock pf pg clk st = handle_data_error (error_message e) clk st
    \<and> handle_data_error (error_message e) clk st
        = (False, st\<lparr>ftse_data := Some (default_snapshot (error_message e) clk),
                     last_update_time := time3 clk\<rparr>)
    \<and> price (default_snapshot (error_message e) clk) = 1637.5
    \<and> change (default_snapshot (error_message e) clk) = - 68.3
    \<and> changePercent (default_snapshot (error_message e) clk) = - 4.0
    \<and> source (default_snapshot (error_message e) clk) = source_default
    \<and> tx_price (default_snapshot (error_message e) clk) = calculate_tx_price 1637.5
    \<and> tx_change (default_snapshot (error_message e) clk) = calculate_tx_change 1637.5
    \<and> timestamp (default_snapshot (error_message e) clk) = time2 clk
    \<and> error (default_snapshot (error_message e) clk) = Some (error_message e)"
  using assms
  by (simp add: failed_refresh handle_data_error_default default_snapshot_def default_price_def)

text \<open>Two instances: the first fetch fails on the empty store; a fetch fails 400 seconds after
  the last write.\<close>

theorem failed_refresh_default_snapshot_witness:
  "ftse_data initial_store = None
   \<and> extract_fields float_plain page_bad_price = Inl (FTSEDataError msg_parse_price)
   \<and> get_ftse_data_from_histock float_plain page_bad_price (clock_at 1000) initial_store
       = (False, store_default)
   \<and> 300 \<le> time1 (clock_at 1400) - last_update_time store_live
   \<and> get_ftse_data_from_histock float_plain page_bad_price (clock_at 1400) store_live
       = (False, \<lparr>ftse_data = Some (default_snapshot msg_parse_price (clock_at 1400)),
                  last_update_time = time3 (clock_at 1400)\<rparr>)"
proof -
  have a: "ftse_data initial_store = None \<or> 300 \<le> time1 (clock_at 1000) - last_update_time initial_store"
    by (simp add: initial_store_def)
  have b: "300 \<le> time1 (clock_at 1400) - last_update_time store_live"
    by (simp add: clock_at_def store_live_def)
  then have b': "ftse_data store_live = None \<or> 300 \<le> time1 (clock_at 1400) - last_update_time store_live"
    by simp
  from failed_refresh_default_snapshot [OF a extract_fields_page_bad_price]
    failed_refresh_default_snapshot [OF b' extract_fields_page_bad_price]
  show ?thesis
    using b extract_fields_page_bad_price
    by (simp add: initial_store_def store_default_def store_live_def clock_at_def)
qed

text \<open>
  C2 as stated, with the age of the snapshot counted from its capture time, fails.  The
  default snapshot written at 1000 carries the timestamp 1000.001 and the last-write time
  1000.002 (two readings of the clock).  A refresh failing at 1300.0015 finds the snapshot
  300.0005 seconds old, yet 299.9995 seconds after the last write: the handler returns \<open>True\<close>
  and keeps the old snapshot, old timestamp and old last-write time; no fresh default
  snapshot is made.
\<close>

theorem default_snapshot_reused_counterexample:
  "reachable float_plain store_default
   \<and> ftse_data store_default = Some (default_snapshot msg_parse_price (clock_at 1000))
   \<and> 300 \<le> time1 clock_late - timestamp (default_snapshot msg_parse_price (clock_at 1000))
   \<and> extract_fields float_plain page_bad_price = Inl (FTSEDataError msg_parse_price)
   \<and> fst (get_ftse_data_from_histock float_plain page_bad_price clock_late store_default) = True
   \<and> snd (get_ftse_data_from_histock float_plain page_bad_price clock_late store_default)
       = store_default
   \<and> last_update_time store_default \<noteq> time3 clock_late
   \<and> ftse_data store_default \<noteq> Some (default_snapshot msg_parse_price clock_late)"
proof -
  have "time1 clock_late - last_update_time store_default < 300"
    by (simp add: clock_late_def clock_at_def store_default_def)
  then have "handle_data_error msg_parse_price clock_late store_default
      = (True, store_default\<lparr>ftse_data := Some ((default_snapshot msg_parse_price (clock_at 1000))
          \<lparr>error := Some msg_parse_price\<rparr>)\<rparr>)"
    by (simp add: handle_data_error_reuse store_default_def)
  then have "get_ftse_data_from_histock float_plain page_bad_price clock_late store_default
      = (True, store_default)"
    by (simp add: failed_refresh [OF extract_fields_page_bad_price] store_default_def
        default_snapshot_def)
  then show ?thesis
    using reachable_store_default extract_fields_page_bad_price
    by (simp add: store_default_def default_snapshot_def clock_late_def clock_at_def)
qed

text \<open>
  C3 (amended).  A failed refresh sets the last-write time to the current time (the third
  clock reading of the call) on the default path only; on the reuse path, where a snapshot
  exists and the last write is less than 300 seconds back, the last-write time is left as it
  was, like the capture timestamp of the reused snapshot.
\<close>

theorem failed_refresh_last_update_time:
  assumes "extract_fields pf pg = Inl e"
  shows "last_update_time (snd (get_ftse_data_from_histock pf pg clk st)) =
     (if ftse_data st \<noteq> None \<and> time1 clk - last_update_time st < 300
      then last_update_time st else time3 clk)"
  using assms
  by (auto simp: failed_refresh handle_data_error_def split: option.splits)

text \<open>Both paths from the live store written at 1000: a failure at 1200 and one at 1400.\<close>

theorem failed_refresh_last_update_time_witness:
  "extract_fields float_plain page_bad_price = Inl (FTSEDataError msg_parse_price)
   \<and> last_update_time (snd (get_ftse_data_from_histock float_plain page_bad_price (clock_at 1200) store_live))
      = last_update_time store_live
   \<and> last_update_time (snd (get_ftse_data_from_histock float_plain page_bad_price (clock_at 1400) store_live))
      = time3 (clock_at 1400)"
  using failed_refresh_last_update_time [OF extract_fields_page_bad_price, of "clock_at 1200" store_live]
    failed_refresh_last_update_time [OF extract_fields_page_bad_price, of "clock_at 1400" store_live]
    extract_fields_page_bad_price
  by (simp add: store_live_def clock_at_def)

text \<open>
  C3 as stated fails on the reuse path: after a successful fetch at 1000, a refresh failing at
  1200 is answered from the stored snapshot (the handler returns \<open>True\<close>) and the last-write
  time is still 1000.
\<close>

theorem last_update_time_kept_counterexample:
  "reachable float_plain store_live
   \<and> extract_fields float_plain page_bad_price = Inl (FTSEDataError msg_parse_price)
   \<and> fst (get_ftse_data_from_histock float_plain page_bad_price (clock_at 1200) store_live) = True
   \<and> time1 (clock_at 1200) = 1200
   \<and> last_update_time (snd (get_ftse_data_from_histock float_plain page_bad_price (clock_at 1200) store_live))
      = 1000"
  using reachable_store_live extract_fields_page_bad_price
  by (simp add: failed_refresh [OF extract_fields_page_bad_price] handle_data_error_def
      store_live_def clock_at_def)

section \<open>The price of the current snapshot\<close>

lemma py_int_of_int: "py_int (of_int m) = m"
  by (simp add: py_int_def)

lemma round_to_quarter_of_int: "round_to_quarter (of_int m) = of_int m"
  by (simp add: round_to_quarter_def py_int_of_int)

lemma py_int_int_plus:
  fixes q :: rat
  assumes "0 \<le> n" "0 \<le> q" "q < 1"
  shows "py_int (of_int n + q) = n"
proof -
  have "0 \<le> rat_of_int n + q" using assms by simp
  moreover have "\<lfloor>rat_of_int n + q\<rfloor> = n" using assms by (simp add: floor_unique)
  ultimately show ?thesis by (simp add: py_int_def)
qed

lemma round_to_quarter_fixed:
  fixes q :: rat
  assumes "0 \<le> n" "q \<in> {0, 0.25, 0.5, 0.75}"
  shows "round_to_quarter (of_int n + q) = of_int n + q"
proof -
  from assms(2) have "0 \<le> q" "q < 1" by auto
  with assms(1) have "py_int (of_int n + q) = n" by (rule py_int_int_plus)
  with assms(2) show ?thesis
    by (auto simp: round_to_quarter_def Let_def)
qed

lemma round_to_quarter_idem: "round_to_quarter (round_to_quarter v) = round_to_quarter v"
proof (cases "v < 0")
  case True
  then show ?thesis
    by (simp add: round_to_quarter_negative round_to_quarter_of_int)
next
  case False
  then have n: "0 \<le> \<lfloor>v\<rfloor>" "py_int v = \<lfloor>v\<rfloor>" by (simp_all add: py_int_def)
  have "round_to_quarter v = of_int (\<lfloor>v\<rfloor> + 1)
      \<or> (\<exists>q \<in> {0, 0.25, 0.5, 0.75}. round_to_quarter v = of_int \<lfloor>v\<rfloor> + q)"
    by (simp add: round_to_quarter_def Let_def n(2))
  then show ?thesis
  proof
    assume "round_to_quarter v = of_int (\<lfloor>v\<rfloor> + 1)"
    then show ?thesis by (simp only: round_to_quarter_of_int)
  next
    assume "\<exists>q \<in> {0, 0.25, 0.5, 0.75}. round_to_quarter v = of_int \<lfloor>v\<rfloor> + q"
    then obtain q :: rat where q: "q \<in> {0, 0.25, 0.5, 0.75}" "round_to_quarter v = of_int \<lfloor>v\<rfloor> + q"
      by blast
    from round_to_quarter_fixed [OF n(1) q(1)] q(2) show ?thesis by simp
  qed
qed

lemma extract_price_quantized:
  "extract_price pf lk = Inr p \<Longrightarrow> round_to_quarter p = p"
  by (auto simp: extract_price_def round_to_quarter_idem split: option.splits)

lemma extract_fields_quantized:
  "extract_fields pf pg = Inr (p, c, q) \<Longrightarrow> round_to_quarter p = p"
  by (auto simp: extract_fields_def split: sum.splits option.splits dest: extract_price_quantized)

lemma round_to_quarter_default: "round_to_quarter default_price = default_price"
  unfolding default_price_def by code_simp

lemma refresh_price_quantized:
  assumes "\<And>d. ftse_data st = Some d \<Longrightarrow> round_to_quarter (price d) = price d"
    and "ftse_data (snd (get_ftse_data_from_histock pf pg clk st)) = Some d'"
  shows "round_to_quarter (price d') = price d'"
proof (cases "extract_fields pf pg")
  case (Inr r)
  obtain p c q where r: "r = (p, c, q)" by (cases r)
  with Inr assms(2) have "price d' = p"
    by (auto simp: get_ftse_data_from_histock_def update_ftse_data_def Let_def)
  with Inr r show ?thesis by (simp add: extract_fields_quantized)
next
  case (Inl e)
  with assms(2) have "ftse_data (snd (handle_data_error (error_message e) clk st)) = Some d'"
    by (simp add: failed_refresh)
  then have "price d' = default_price \<or> (\<exists>d. ftse_data st = Some d \<and> price d' = price d)"
    by (auto simp: handle_data_error_def default_snapshot_def split: option.splits if_splits)
  with assms(1) show ?thesis by (auto simp: round_to_quarter_default)
qed

text \<open>
  C10.  In every store the program can be in, whichever of the three write paths (successful
  fetch, reuse of the stored snapshot on a failure inside the window, default fallback) made
  the current snapshot, its price is a fixed point of the quantizer:
  \<open>round_to_quarter (price d) = price d\<close>.
\<close>

theorem current_price_quantized:
  assumes "reachable pf st" and "ftse_data st = Some d"
  shows "round_to_quarter (price d) = price d"
  using assms
proof (induction arbitrary: d rule: reachable.induct)
  case start
  then show ?case by (simp add: initial_store_def)
next
  case (refresh st clk pg)
  from refresh.IH refresh.prems show ?case by (rule refresh_price_quantized)
qed

text \<open>Instances: the store after a successful fetch and the store after the default fallback.\<close>

theorem current_price_quantized_witness:
  "reachable float_plain store_live \<and> ftse_data store_live = Some live_snapshot
   \<and> round_to_quarter (price live_snapshot) = price live_snapshot
   \<and> reachable float_plain store_default
   \<and> ftse_data store_default = Some (default_snapshot msg_parse_price (clock_at 1000))
   \<and> round_to_quarter (price (default_snapshot msg_parse_price (clock_at 1000)))
       = price (default_snapshot msg_parse_price (clock_at 1000))"
proof -
  have a: "ftse_data store_live = Some live_snapshot"
    by (simp add: store_live_def)
  have b: "ftse_data store_default = Some (default_snapshot msg_parse_price (clock_at 1000))"
    by (simp add: store_default_def)
  from current_price_quantized [OF reachable_store_live a]
    current_price_quantized [OF reachable_store_default b]
  show ?thesis using reachable_store_live reachable_store_default a b by simp
qed

section \<open>The read operation\<close>

lemma refresh_sets_snapshot:
  "ftse_data (snd (get_ftse_data_from_histock pf pg clk st)) \<noteq> None"
  by (auto simp: get_ftse_data_from_histock_def update_ftse_data_def handle_data_error_def Let_def
      split: sum.splits option.splits prod.splits)

text \<open>
  C8.  \<^const>\<open>get_ftse_data\<close>: when a snapshot exists and the time read minus the last-write
  time is at most the threshold (20 seconds in market hours, 300 otherwise), the snapshot is
  returned and no refresh is started; when the threshold is exceeded, a background refresh
  is started and the current snapshot is returned all the same, the store being as it was;
  when no snapshot exists, the refresh is run before returning, and what is returned is the
  snapshot this refresh made current (there is one).
\<close>

theorem get_ftse_data_policy:
  "(ftse_data st = Some d \<and> t - last_update_time st \<le> (if is_market_hours now then 20 else 300)
      \<longrightarrow> get_ftse_data pf now t pg clk st = ((Some d, NoRefresh), st))
   \<and> (ftse_data st = Some d \<and> (if is_market_hours now then 20 else 300) < t - last_update_time st
      \<longrightarrow> get_ftse_data pf now t pg clk st = ((Some d, BackgroundRefresh), st))
   \<and> (ftse_data st = None
      \<longrightarrow> get_ftse_data pf now t pg clk st
            = ((ftse_data (snd (get_ftse_data_from_histock pf pg clk st)), BlockingRefresh),
               snd (get_ftse_data_from_histock pf pg clk st))
          \<and> ftse_data (snd (get_ftse_data_from_histock pf pg clk st)) \<noteq> None)"
  using refresh_sets_snapshot [of pf pg clk st]
  by (auto simp: get_ftse_data_def Let_def)

lemma market_sat: "\<not> is_market_hours (saturday_at 10 0 0 0)"
  by (simp add: is_market_hours_def weekday_examples)

text \<open>Instances: on a Tuesday at 10:00 the ages 20 and 21; on a Saturday the ages 300 and 301;
  the first read on the empty store.\<close>

theorem get_ftse_data_policy_witness:
  "ftse_data store_live = Some live_snapshot
   \<and> is_market_hours (tuesday_at 10 0 0 0) \<and> \<not> is_market_hours (saturday_at 10 0 0 0)
   \<and> get_ftse_data float_plain (tuesday_at 10 0 0 0) 1020 page_ok (clock_at 1020) store_live
       = ((Some live_snapshot, NoRefresh), store_live)
   \<and> get_ftse_data float_plain (tuesday_at 10 0 0 0) 1021 page_ok (clock_at 1021) store_live
       = ((Some live_snapshot, BackgroundRefresh), store_live)
   \<and> get_ftse_data float_plain (saturday_at 10 0 0 0) 1300 page_ok (clock_at 1300) store_live
       = ((Some live_snapshot, NoRefresh), store_live)
   \<and> get_ftse_data float_plain (saturday_at 10 0 0 0) 1301 page_ok (clock_at 1301) store_live
       = ((Some live_snapshot, BackgroundRefresh), store_live)
   \<and> ftse_data initial_store = None
   \<and> get_ftse_data float_plain (tuesday_at 10 0 0 0) 1000 page_ok (clock_at 1000) initial_store
       = ((Some live_snapshot, BlockingRefresh), store_live)"
  using
    get_ftse_data_policy [of store_live live_snapshot 1020 "tuesday_at 10 0 0 0" float_plain page_ok "clock_at 1020"]
    get_ftse_data_policy [of store_live live_snapshot 1021 "tuesday_at 10 0 0 0" float_plain page_ok "clock_at 1021"]
    get_ftse_data_policy [of store_live live_snapshot 1300 "saturday_at 10 0 0 0" float_plain page_ok "clock_at 1300"]
    get_ftse_data_policy [of store_live live_snapshot 1301 "saturday_at 10 0 0 0" float_plain page_ok "clock_at 1301"]
    get_ftse_data_policy [of initial_store live_snapshot 1000 "tuesday_at 10 0 0 0" float_plain page_ok "clock_at 1000"]
  by (simp add: market_10 market_sat refresh_live) (simp add: store_live_def initial_store_def)

section \<open>Sign correction in the field extractor\<close>

lemma no_minus_not_startswith: "minus_sign \<notin> set t \<Longrightarrow> \<not> startswith_minus t"
  by (cases t) (auto simp: startswith_minus_def)

lemma marked_down_class:
  "first_class el = Inr c \<Longrightarrow>
     marked_down t el = Inr (down_glyph \<in> set t \<or> c = ascii ''clr-gr'')"
  by (simp add: marked_down_def)

lemma extract_change_sign:
  assumes "first_class el = Inr c"
    and "pf (remove_cp comma (remove_cp up_glyph (remove_cp down_glyph (strip (el_text el))))) = Some v"
  shows "extract_change pf (Some (Some el)) =
     Inr (if startswith_minus (strip (el_text el)) then v
          else if down_glyph \<in> set (strip (el_text el)) \<or> c = ascii ''clr-gr'' then - v else v)"
  using assms by (simp add: extract_change_def Let_def marked_down_class)

lemma extract_percent_sign:
  assumes "first_class el = Inr c"
    and "pf (remove_cp percent_sign (strip (el_text el))) = Some v"
  shows "extract_percent pf (Some (Some el)) =
     Inr (if startswith_minus (remove_cp percent_sign (strip (el_text el))) then v
          else if down_glyph \<in> set (el_text el) \<or> c = ascii ''clr-gr'' then - v else v)"
  using assms by (simp add: extract_percent_def Let_def marked_down_class)

lemma change_examples:
  "extract_change float_plain (Some (Some (span (ascii ''-5.2'') ''clr-gr''))) = Inr (- 5.2)"
  "extract_change float_plain (Some (Some (span (down_glyph # ascii ''5.2'') ''clr-gr''))) = Inr (- 5.2)"
  "extract_change float_plain (Some (Some (span (ascii ''-5.2'' @ [down_glyph]) ''clr-gr''))) = Inr (- 5.2)"
  by (simp_all add: text_eval extract_eval)

text \<open>
  C4 (amended).  For an element whose first class is \<open>c\<close>, and a text that \<^verbatim>\<open>float\<close> parses to
  \<open>v\<close> (after the glyphs and separators the block removes): in the change block and in the
  percent block alike, when the text starts with \<^verbatim>\<open>'-'\<close> the value is \<open>v\<close> as parsed, never
  negated again; when the text holds no minus sign, the value is negated exactly when the down
  glyph is in the text or the first class of the element is \<^verbatim>\<open>clr-gr\<close> (the class
  \<^verbatim>\<open>clr-rd\<close> does not negate).  So the change text \<^verbatim>\<open>-5.2\<close> without a glyph gives -5.2,
  \<^verbatim>\<open>5.2\<close> after a down glyph gives -5.2, and \<^verbatim>\<open>-5.2\<close> followed by a down glyph gives -5.2.
\<close>

theorem sign_correction:
  assumes "first_class el = Inr c"
  shows
   "(pf (remove_cp comma (remove_cp up_glyph (remove_cp down_glyph (strip (el_text el))))) = Some v
       \<longrightarrow> (startswith_minus (strip (el_text el))
               \<longrightarrow> extract_change pf (Some (Some el)) = Inr v)
          \<and> (minus_sign \<notin> set (strip (el_text el))
               \<longrightarrow> extract_change pf (Some (Some el)) =
                     Inr (if down_glyph \<in> set (strip (el_text el)) \<or> c = ascii ''clr-gr''
                          then - v else v)))
    \<and> (pf (remove_cp percent_sign (strip (el_text el))) = Some v
       \<longrightarrow> (startswith_minus (remove_cp percent_sign (strip (el_text el)))
               \<longrightarrow> extract_percent pf (Some (Some el)) = Inr v)
          \<and> (minus_sign \<notin> set (remove_cp percent_sign (strip (el_text el)))
               \<longrightarrow> extract_percent pf (Some (Some el)) =
                     Inr (if down_glyph \<in> set (el_text el) \<or> c = ascii ''clr-gr''
                          then - v else v)))
    \<and> extract_change float_plain (Some (Some (span (ascii ''-5.2'') ''clr-gr''))) = Inr (- 5.2)
    \<and> extract_change float_plain (Some (Some (span (down_glyph # ascii ''5.2'') ''clr-gr'')))
        = Inr (- 5.2)
    \<and> extract_change float_plain (Some (Some (span (ascii ''-5.2'' @ [down_glyph]) ''clr-gr'')))
        = Inr (- 5.2)"
  using extract_change_sign [OF assms, of pf v] extract_percent_sign [OF assms, of pf v]
    no_minus_not_startswith change_examples
  by simp

lemma first_class_span: "first_class (span t c) = Inr (ascii c)"
  by (simp add: first_class_def span_def)

text \<open>Instances: a change \<^verbatim>\<open>5.2\<close> of class \<^verbatim>\<open>clr-gr\<close>, a change and a percent \<^verbatim>\<open>-5.2\<close>, and a
  percent \<^verbatim>\<open>0.32%\<close> of class \<^verbatim>\<open>clr-rd\<close>.\<close>

theorem sign_correction_witness:
  "first_class (span (ascii ''5.2'') ''clr-gr'') = Inr (ascii ''clr-gr'')
   \<and> float_plain (remove_cp comma (remove_cp up_glyph (remove_cp down_glyph
        (strip (el_text (span (ascii ''5.2'') ''clr-gr'')))))) = Some 5.2
   \<and> minus_sign \<notin> set (strip (el_text (span (ascii ''5.2'') ''clr-gr'')))
   \<and> extract_change float_plain (Some (Some (span (ascii ''5.2'') ''clr-gr''))) = Inr (- 5.2)
   \<and> float_plain (remove_cp percent_sign (strip (el_text (span (ascii ''-5.2'') ''clr-gr''))))
        = Some (- 5.2)
   \<and> startswith_minus (remove_cp percent_sign (strip (el_text (span (ascii ''-5.2'') ''clr-gr''))))
   \<and> extract_percent float_plain (Some (Some (span (ascii ''-5.2'') ''clr-gr''))) = Inr (- 5.2)
   \<and> float_plain (remove_cp comma (remove_cp up_glyph (remove_cp down_glyph
        (strip (el_text (span (ascii ''-5.2'') ''clr-gr'')))))) = Some (- 5.2)
   \<and> startswith_minus (strip (el_text (span (ascii ''-5.2'') ''clr-gr'')))
   \<and> extract_change float_plain (Some (Some (span (ascii ''-5.2'') ''clr-gr''))) = Inr (- 5.2)
   \<and> float_plain (remove_cp percent_sign (strip (el_text (span (ascii ''0.32%'') ''clr-rd''))))
        = Some 0.32
   \<and> minus_sign \<notin> set (remove_cp percent_sign (strip (el_text (span (ascii ''0.32%'') ''clr-rd''))))
   \<and> extract_percent float_plain (Some (Some (span (ascii ''0.32%'') ''clr-rd''))) = Inr 0.32"
proof -
  have t: "float_plain (remove_cp comma (remove_cp up_glyph (remove_cp down_glyph
        (strip (el_text (span (ascii ''5.2'') ''clr-gr'')))))) = Some 5.2"
    "minus_sign \<notin> set (strip (el_text (span (ascii ''5.2'') ''clr-gr'')))"
    "float_plain (remove_cp percent_sign (strip (el_text (span (ascii ''-5.2'') ''clr-gr''))))
        = Some (- 5.2)"
    "startswith_minus (remove_cp percent_sign (strip (el_text (span (ascii ''-5.2'') ''clr-gr''))))"
    "float_plain (remove_cp comma (remove_cp up_glyph (remove_cp down_glyph
        (strip (el_text (span (ascii ''-5.2'') ''clr-gr'')))))) = Some (- 5.2)"
    "startswith_minus (strip (el_text (span (ascii ''-5.2'') ''clr-gr'')))"
    "float_plain (remove_cp percent_sign (strip (el_text (span (ascii ''0.32%'') ''clr-rd''))))
        = Some 0.32"
    "minus_sign \<notin> set (remove_cp percent_sign (strip (el_text (span (ascii ''0.32%'') ''clr-rd''))))"
    by (simp_all add: text_eval)
  have ne: "ascii ''clr-rd'' \<noteq> ascii ''clr-gr''"
    by (simp add: ascii_def)
  have g: "down_glyph \<notin> set (el_text (span (ascii ''0.32%'') ''clr-rd''))"
    "down_glyph \<notin> set (strip (el_text (span (ascii ''5.2'') ''clr-gr'')))"
    by (simp_all add: text_eval)
  from sign_correction [where el = "span (ascii ''5.2'') ''clr-gr''" and c = "ascii ''clr-gr''"
      and pf = float_plain and v = "5.2"]
    sign_correction [where el = "span (ascii ''-5.2'') ''clr-gr''" and c = "ascii ''clr-gr''"
      and pf = float_plain and v = "- 5.2"]
    sign_correction [where el = "span (ascii ''0.32%'') ''clr-rd''" and c = "ascii ''clr-rd''"
      and pf = float_plain and v = "0.32"]
  show ?thesis
    using t ne g first_class_span by simp
qed

text \<open>
  C4 as stated fails: a text \<^verbatim>\<open>5.2\<close> without minus sign and without glyph, on an element
  carrying the red class \<^verbatim>\<open>clr-rd\<close>, is not negated, neither as change nor as percent; it is
  the class \<^verbatim>\<open>clr-gr\<close> that negates.
\<close>

theorem red_class_counterexample:
  "extract_change float_plain (Some (Some (span (ascii ''5.2'') ''clr-rd''))) = Inr 5.2
   \<and> extract_percent float_plain (Some (Some (span (ascii ''5.2%'') ''clr-rd''))) = Inr 5.2
   \<and> extract_change float_plain (Some (Some (span (ascii ''5.2'') ''clr-gr''))) = Inr (- 5.2)
   \<and> extract_percent float_plain (Some (Some (span (ascii ''5.2%'') ''clr-gr''))) = Inr (- 5.2)"
  by (simp add: text_eval extract_eval)

text \<open>
  Two texts outside the statement above, as the model runs them with \<^const>\<open>float_plain\<close>: the
  percent block parses its text with the glyph still in it, and the change block looks for
  the minus sign at the start of the text with the glyph still in it.
\<close>

lemma glyph_slips:
  "extract_percent float_plain (Some (Some (span (down_glyph # ascii ''5.2%'') ''clr-gr'')))
     = Inl (FTSEDataError msg_parse_percent)"
  "extract_change float_plain (Some (Some (span (down_glyph # ascii ''-5.2'') ''clr-gr''))) = Inr 5.2"
  by (simp_all add: text_eval extract_eval)

section \<open>A price field that fails\<close>

lemma messages_distinct:
  "msg_find_price \<notin> {msg_no_price_info, msg_find_change, msg_parse_change, msg_find_percent, msg_parse_percent}"
  "msg_parse_price \<notin> {msg_no_price_info, msg_find_change, msg_parse_change, msg_find_percent, msg_parse_percent}"
  by (simp_all add: msg_find_price_def msg_parse_price_def msg_no_price_info_def
      msg_find_change_def msg_parse_change_def msg_find_percent_def msg_parse_percent_def)

lemma handle_data_error_snapshot:
  "ftse_data (snd (handle_data_error msg clk st)) = Some (default_snapshot msg clk)
   \<or> (\<exists>d. ftse_data st = Some d
         \<and> ftse_data (snd (handle_data_error msg clk st)) = Some (d\<lparr>error := Some msg\<rparr>))"
  by (auto simp: handle_data_error_def split: option.splits)

lemma extract_price_fails:
  assumes "lk = None \<or> lk = Some None
     \<or> (\<exists>el. lk = Some (Some el) \<and> pf (remove_cp comma (strip (el_text el))) = None)"
  shows "extract_price pf lk
     = Inl (FTSEDataError (if lk = Some None then msg_find_price else msg_parse_price))"
  using assms by (auto simp: extract_price_def)

text \<open>
  C9.  When the price field is not located (the labelled element or the element inside it is
  missing) or its text does not parse, whatever the change and percent fields are: the
  extraction raises \<^verbatim>\<open>FTSEDataError\<close> with one of the two price messages, the refresh hands
  exactly this message to \<^const>\<open>handle_data_error\<close>, the message differs from the messages of
  the price region, the change and the percent, and the snapshot current afterwards is either
  the default snapshot or the snapshot stored before with the message as its error: no field
  of it comes from the page.
\<close>

theorem price_failure_falls_back:
  assumes "lbTPrice info = None \<or> lbTPrice info = Some None
     \<or> (\<exists>el. lbTPrice info = Some (Some el) \<and> pf (remove_cp comma (strip (el_text el))) = None)"
  shows "(let msg = (if lbTPrice info = Some None then msg_find_price else msg_parse_price);
              st' = snd (get_ftse_data_from_histock pf (Inr (Some info)) clk st)
          in extract_fields pf (Inr (Some info)) = Inl (FTSEDataError msg)
           \<and> get_ftse_data_from_histock pf (Inr (Some info)) clk st = handle_data_error msg clk st
           \<and> msg \<notin> {msg_no_price_info, msg_find_change, msg_parse_change, msg_find_percent,
                      msg_parse_percent}
           \<and> (ftse_data st' = Some (default_snapshot msg clk)
              \<or> (\<exists>d. ftse_data st = Some d \<and> ftse_data st' = Some (d\<lparr>error := Some msg\<rparr>))))"
proof -
  let ?msg = "if lbTPrice info = Some None then msg_find_price else msg_parse_price"
  from assms have "extract_price pf (lbTPrice info) = Inl (FTSEDataError ?msg)"
    by (rule extract_price_fails)
  then have a: "extract_fields pf (Inr (Some info)) = Inl (FTSEDataError ?msg)"
    by (simp add: extract_fields_def)
  then have b: "get_ftse_data_from_histock pf (Inr (Some info)) clk st = handle_data_error ?msg clk st"
    using failed_refresh [OF a, of clk st] by (simp only: error_message.simps)
  have c: "?msg \<notin> {msg_no_price_info, msg_find_change, msg_parse_change, msg_find_percent,
                      msg_parse_percent}"
    using messages_distinct by (simp only: split: if_split) blast
  from a b c handle_data_error_snapshot [of ?msg clk st] show ?thesis
    by (simp only: Let_def) simp
qed

text \<open>Instances: a price text \<^verbatim>\<open>N/A\<close> on a store with a recent snapshot, and a missing price
  element on the empty store; change and percent are well-formed in both pages.\<close>

theorem price_failure_falls_back_witness:
  "lbTPrice info_bad_price = Some (Some (span (ascii ''N/A'') ''clr-gr''))
   \<and> float_plain (remove_cp comma (strip (el_text (span (ascii ''N/A'') ''clr-gr'')))) = None
   \<and> extract_fields float_plain (Inr (Some info_bad_price)) = Inl (FTSEDataError msg_parse_price)
   \<and> get_ftse_data_from_histock float_plain (Inr (Some info_bad_price)) (clock_at 1200) store_live
       = (True, store_live\<lparr>ftse_data := Some (live_snapshot\<lparr>error := Some msg_parse_price\<rparr>)\<rparr>)
   \<and> lbTPrice info_no_price = Some None
   \<and> extract_fields float_plain (Inr (Some info_no_price)) = Inl (FTSEDataError msg_find_price)
   \<and> get_ftse_data_from_histock float_plain (Inr (Some info_no_price)) (clock_at 1000) initial_store
       = (False, \<lparr>ftse_data = Some (default_snapshot msg_find_price (clock_at 1000)),
                  last_update_time = time3 (clock_at 1000)\<rparr>)"
proof -
  have a: "lbTPrice info_bad_price = Some (Some (span (ascii ''N/A'') ''clr-gr''))"
    by (simp add: info_bad_price_def fields_info_def)
  have b: "float_plain (remove_cp comma (strip (el_text (span (ascii ''N/A'') ''clr-gr'')))) = None"
    by (simp add: text_eval)
  have c: "lbTPrice info_no_price = Some None"
    by (simp add: info_no_price_def)
  have h1: "handle_data_error msg_parse_price (clock_at 1200) store_live
       = (True, store_live\<lparr>ftse_data := Some (live_snapshot\<lparr>error := Some msg_parse_price\<rparr>)\<rparr>)"
    by (simp add: handle_data_error_def store_live_def clock_at_def)
  have h2: "handle_data_error msg_find_price (clock_at 1000) initial_store
       = (False, \<lparr>ftse_data = Some (default_snapshot msg_find_price (clock_at 1000)),
                  last_update_time = time3 (clock_at 1000)\<rparr>)"
    by (simp add: handle_data_error_def initial_store_def)
  from price_failure_falls_back [where info = info_bad_price and pf = float_plain
      and clk = "clock_at 1200" and st = store_live]
    price_failure_falls_back [where info = info_no_price and pf = float_plain
      and clk = "clock_at 1000" and st = initial_store]
  show ?thesis
    using a b c by (simp add: Let_def h1 h2)
qed

end
